theory Spec2Isabelle
  imports Complex_Main "HOL-Library.AList"
begin

section \<open>Python values\<close>

text \<open>
  The values that \<open>json.loads\<close> produces. A Python dict keeps insertion order and an
  assignment to an existing key keeps the key's place, which is what \<^const>\<open>AList.update\<close>
  does on an association list. Python floats are modelled as exact reals (no rounding, no
  NaN, no infinities).
\<close>

datatype json =
    JNull
  | JBool bool
  | JInt int
  | JFloat real
  | JStr string
  | JArr "json list"
  | JObj "(string \<times> json) list"

datatype error =
    JSONDecodeError
  | ValueError
  | KeyError
  | AttributeError
  | TypeError
  | IncentiveNotFound int
  | UpstreamError
  | NumericValueOutOfRange
  | CheckViolation
  | ForeignKeyViolation

text \<open>
  The three library functions whose result depends on text syntax are parameters of the
  model: \<open>json.loads\<close> (\<open>None\<close> is \<open>JSONDecodeError\<close>), \<open>float\<close> on a
  string (\<open>None\<close> is \<open>ValueError\<close>) and the \<open>:.3f\<close> format.
\<close>

record pylib =
  json_loads :: "string \<Rightarrow> json option"
  float_of_str :: "string \<Rightarrow> real option"
  format_3f :: "real \<Rightarrow> string"

definition ebind :: "error + 'a \<Rightarrow> ('a \<Rightarrow> error + 'b) \<Rightarrow> error + 'b" where
  "ebind m f = (case m of Inl e \<Rightarrow> Inl e | Inr x \<Rightarrow> f x)"

text \<open>\<open>d.get(k, dflt)\<close>: only a dict has the method.\<close>

definition dict_get :: "json \<Rightarrow> string \<Rightarrow> json \<Rightarrow> error + json" where
  "dict_get d k dflt =
     (case d of
        JObj kvs \<Rightarrow> Inr (case map_of kvs k of None \<Rightarrow> dflt | Some v \<Rightarrow> v)
      | _ \<Rightarrow> Inl AttributeError)"

text \<open>
  \<open>float(v)\<close>. On exact reals an int of any size converts; Python raises
  \<open>OverflowError\<close> for an int beyond the float range.
\<close>

definition py_float :: "pylib \<Rightarrow> json \<Rightarrow> error + real" where
  "py_float L v =
     (case v of
        JInt i \<Rightarrow> Inr (of_int i)
      | JFloat r \<Rightarrow> Inr r
      | JBool b \<Rightarrow> Inr (if b then 1 else 0)
      | JStr s \<Rightarrow> (case float_of_str L s of None \<Rightarrow> Inl ValueError | Some r \<Rightarrow> Inr r)
      | _ \<Rightarrow> Inl TypeError)"

text \<open>\<open>xs[:n]\<close> for a Python int \<open>n\<close>: a negative bound counts from the end.\<close>

definition py_take :: "int \<Rightarrow> 'a list \<Rightarrow> 'a list" where
  "py_take n xs = (if 0 \<le> n then take (nat n) xs else take (length xs - nat (- n)) xs)"

text \<open>\<open>s.strip()\<close> on the code points below 256.\<close>

definition py_isspace :: "char \<Rightarrow> bool" where
  "py_isspace c =
     (let n = of_char c :: nat
      in (9 \<le> n \<and> n \<le> 13) \<or> (28 \<le> n \<and> n \<le> 32) \<or> n = 133 \<or> n = 160)"

definition py_strip :: "string \<Rightarrow> string" where
  "py_strip s = rev (dropWhile py_isspace (rev (dropWhile py_isspace s)))"

section \<open>RelevanceRanker: \<open>_llm_rank_candidates\<close>\<close>

text \<open>A candidate is a row of \<open>find_similar_companies\<close>.\<close>

record candidate =
  id_c :: int
  company_name :: string
  cae_primary_label :: "string option"
  trade_description_native :: "string option"
  website :: "string option"
  similarity_score :: real

record MatchingResult =
  company_id :: int
  score :: real
  rank :: nat
  reasoning :: json

text \<open>What \<open>complete\<close> returns: the text and the usage dict.\<close>

record response_data =
  content :: string
  usage :: "(string \<times> real) list"

text \<open>
  \<open>OpenAIClient.complete\<close> and the Gemini client build the usage dict with the keys
  \<open>prompt_tokens\<close>, \<open>completion_tokens\<close>, \<open>total_tokens\<close> and \<open>cost\<close>.
\<close>

definition complete_result :: "string \<Rightarrow> nat \<Rightarrow> nat \<Rightarrow> real \<Rightarrow> response_data" where
  "complete_result text prompt_tokens completion_tokens cost =
     \<lparr> content = text,
       usage = [(''prompt_tokens'', real prompt_tokens),
                (''completion_tokens'', real completion_tokens),
                (''total_tokens'', real (prompt_tokens + completion_tokens)),
                (''cost'', cost)] \<rparr>"

text \<open>\<open>float(result.get(key, {}).get('score', 3))\<close>\<close>

definition component_score :: "pylib \<Rightarrow> json \<Rightarrow> string \<Rightarrow> error + real" where
  "component_score L result key =
     ebind (dict_get result key (JObj []))
       (\<lambda>inner. ebind (dict_get inner ''score'' (JInt 3)) (py_float L))"

text \<open>
  The chained comparison \<open>1 <= company_number <= len(candidates)\<close>: an int or a
  bool (an int in Python) or a float is compared, anything else raises \<open>TypeError\<close>.
\<close>

definition in_bounds :: "json \<Rightarrow> nat \<Rightarrow> error + bool" where
  "in_bounds company_number n =
     (case company_number of
        JInt i \<Rightarrow> Inr (1 \<le> i \<and> i \<le> int n)
      | JBool b \<Rightarrow> Inr (b \<and> 1 \<le> n)
      | JFloat r \<Rightarrow> Inr (1 \<le> r \<and> r \<le> real n)
      | _ \<Rightarrow> Inl TypeError)"

text \<open>
  \<open>candidates[company_number - 1]\<close>, reached only under the guard: a float index
  raises \<open>TypeError\<close>.
\<close>

definition index_candidate :: "candidate list \<Rightarrow> json \<Rightarrow> error + candidate" where
  "index_candidate candidates company_number =
     (case company_number of
        JInt i \<Rightarrow> Inr (candidates ! nat (i - 1))
      | JBool b \<Rightarrow> Inr (candidates ! 0)
      | _ \<Rightarrow> Inl TypeError)"

definition clamp_score :: "real \<Rightarrow> real" where
  "clamp_score final_score = max 1.0 (min 5.0 final_score)"

definition has_key :: "json \<Rightarrow> string \<Rightarrow> bool" where
  "has_key d k = (case d of JObj kvs \<Rightarrow> map_of kvs k \<noteq> None | _ \<Rightarrow> False)"

definition set_key :: "json \<Rightarrow> string \<Rightarrow> json \<Rightarrow> json" where
  "set_key d k v = (case d of JObj kvs \<Rightarrow> JObj (AList.update k v kvs) | _ \<Rightarrow> d)"

text \<open>
  The final score of one entry and the entry as the branch leaves it: the explicit
  \<open>final_score\<close> when the key is present, else the weighted sum, which is also
  stored under \<open>final_score\<close>.
\<close>

definition entry_final_score :: "pylib \<Rightarrow> json \<Rightarrow> error + (real \<times> json)" where
  "entry_final_score L result =
     (if has_key result ''final_score''
      then ebind (dict_get result ''final_score'' JNull)
             (\<lambda>v. ebind (py_float L v) (\<lambda>final_score. Inr (final_score, result)))
      else ebind (component_score L result ''adequacao_estrategia'') (\<lambda>adequacao_score.
           ebind (component_score L result ''qualidade'') (\<lambda>qualidade_score.
           ebind (component_score L result ''capacidade_execucao'') (\<lambda>capacidade_score.
             let final_score = (adequacao_score * 0.40) + (qualidade_score * 0.35)
                                 + (capacidade_score * 0.25)
             in Inr (final_score, set_key result ''final_score'' (JFloat final_score))))))"

text \<open>
  One iteration of the loop over \<open>results_array[:top_n]\<close>: \<open>None\<close> when the entry is
  skipped by the bounds guard, an error when a call in the body raises.
\<close>

definition process_entry ::
  "pylib \<Rightarrow> candidate list \<Rightarrow> nat \<Rightarrow> json \<Rightarrow> error + MatchingResult option" where
  "process_entry L candidates rnk result =
     ebind (dict_get result ''company_number'' (JInt (int rnk))) (\<lambda>company_number.
     ebind (in_bounds company_number (length candidates)) (\<lambda>ok.
       if \<not> ok then Inr None
       else
         ebind (index_candidate candidates company_number) (\<lambda>company.
         ebind (entry_final_score L result) (\<lambda>(final_score0, result1).
           let final_score = clamp_score final_score0;
               result2 = set_key result1 ''vector_similarity'' (JFloat (similarity_score company))
           in
           ebind (component_score L result2 ''adequacao_estrategia'') (\<lambda>sf.
             let result3 = set_key result2 ''strategic_fit'' (JFloat sf) in
           ebind (component_score L result3 ''qualidade'') (\<lambda>q.
             let result4 = set_key result3 ''quality'' (JFloat q) in
           ebind (component_score L result4 ''capacidade_execucao'') (\<lambda>ex.
             let result5 = set_key result4 ''execution_capacity'' (JFloat ex) in
             Inr (Some \<lparr> company_id = id_c company, score = final_score,
                         rank = rnk, reasoning = result5 \<rparr>))))))))"

text \<open>
  The loop \<open>for rank, result in enumerate(results_array[:top_n], 1)\<close>; the first
  exception ends it.
\<close>

fun rank_loop ::
  "pylib \<Rightarrow> candidate list \<Rightarrow> nat \<Rightarrow> json list \<Rightarrow> error + MatchingResult list" where
  "rank_loop L candidates rnk [] = Inr []"
| "rank_loop L candidates rnk (result # rest) =
     (case process_entry L candidates rnk result of
        Inl e \<Rightarrow> Inl e
      | Inr m \<Rightarrow>
          (case rank_loop L candidates (Suc rnk) rest of
             Inl e \<Rightarrow> Inl e
           | Inr ms \<Rightarrow> Inr (case m of None \<Rightarrow> ms | Some r \<Rightarrow> r # ms)))"

text \<open>The body of the \<open>try\<close>: parse, check the shape, run the loop.\<close>

definition parse_and_rank ::
  "pylib \<Rightarrow> candidate list \<Rightarrow> int \<Rightarrow> string \<Rightarrow> error + MatchingResult list" where
  "parse_and_rank L candidates top_n response =
     (case json_loads L (py_strip response) of
        None \<Rightarrow> Inl JSONDecodeError
      | Some results_array \<Rightarrow>
          (case results_array of
             JArr entries \<Rightarrow> rank_loop L candidates 1 (py_take top_n entries)
           | _ \<Rightarrow> Inl ValueError))"

text \<open>\<open>except (json.JSONDecodeError, ValueError, KeyError)\<close>\<close>

definition caught :: "error \<Rightarrow> bool" where
  "caught e = (e = JSONDecodeError \<or> e = ValueError \<or> e = KeyError)"

definition str_of_error :: "error \<Rightarrow> string" where
  "str_of_error e =
     (if e = JSONDecodeError then ''JSONDecodeError''
      else if e = ValueError then ''ValueError''
      else ''KeyError'')"

definition fallback_reasoning :: "pylib \<Rightarrow> candidate \<Rightarrow> error \<Rightarrow> json" where
  "fallback_reasoning L company e =
     JObj [(''adequacao_estrategia'',
              JObj [(''score'', JInt 3), (''reasoning'', JStr ''LLM parsing failed'')]),
           (''qualidade'',
              JObj [(''score'', JInt 3), (''reasoning'', JStr ''LLM parsing failed'')]),
           (''capacidade_execucao'',
              JObj [(''score'', JInt 3), (''reasoning'', JStr ''LLM parsing failed'')]),
           (''final_score'', JFloat 3.0),
           (''vector_similarity'', JFloat (similarity_score company)),
           (''recommendation'',
              JStr (''Selected by vector similarity (''
                      @ format_3f L (similarity_score company) @ '')'')),
           (''error'', JStr (str_of_error e))]"

fun fallback_loop :: "pylib \<Rightarrow> error \<Rightarrow> nat \<Rightarrow> candidate list \<Rightarrow> MatchingResult list" where
  "fallback_loop L e rnk [] = []"
| "fallback_loop L e rnk (company # rest) =
     \<lparr> company_id = id_c company, score = 3.0, rank = rnk,
       reasoning = fallback_reasoning L company e \<rparr> # fallback_loop L e (Suc rnk) rest"

text \<open>
  \<open>_llm_rank_candidates\<close> from the point where the scoring call has returned. An
  exception that the \<open>except\<close> clause does not name leaves the function.
\<close>

definition llm_rank_candidates ::
  "pylib \<Rightarrow> candidate list \<Rightarrow> int \<Rightarrow> response_data
     \<Rightarrow> error + (MatchingResult list \<times> real)" where
  "llm_rank_candidates L candidates top_n rd =
     (let response = content rd;
          llm_cost = (case map_of (usage rd) ''total_cost'' of None \<Rightarrow> 0.0 | Some c \<Rightarrow> c)
      in case parse_and_rank L candidates top_n response of
           Inr matching_results \<Rightarrow> Inr (matching_results, llm_cost)
         | Inl e \<Rightarrow>
             if caught e
             then Inr (fallback_loop L e 1 (py_take top_n candidates), llm_cost)
             else Inl e)"

section \<open>MatchOrchestrator: \<open>match_companies_for_incentive\<close>\<close>

record incentive =
  id_i :: int
  title :: string
  description :: "string option"

text \<open>
  What the orchestrator reads from outside: the incentives and companies tables, the
  stored embedding of an incentive (\<open>None\<close> for no row or a NULL column), the pgvector
  nearest-neighbour query, and the scoring call \<open>ai_client.complete\<close> on the prompt
  built from the incentive and the candidates (\<open>None\<close> when the call raises).
\<close>

record 'v world =
  get_incentive :: "int \<Rightarrow> incentive option"
  get_all_incentives :: "incentive list"
  company_exists :: "int \<Rightarrow> bool"
  embedding_of :: "int \<Rightarrow> 'v option"
  nearest :: "'v \<Rightarrow> int \<Rightarrow> candidate list"
  complete :: "incentive \<Rightarrow> candidate list \<Rightarrow> response_data option"

definition find_similar_companies :: "'v world \<Rightarrow> int \<Rightarrow> int \<Rightarrow> candidate list" where
  "find_similar_companies W incentive_id limit =
     (case embedding_of W incentive_id of
        None \<Rightarrow> []
      | Some incentive_embedding \<Rightarrow> nearest W incentive_embedding limit)"

text \<open>
  \<open>max_cost_per_incentive\<close> is compared with the cost after the ranking call and only
  a warning is logged, so it does not appear in the result.
\<close>

definition match_companies_for_incentive ::
  "'v world \<Rightarrow> pylib \<Rightarrow> int \<Rightarrow> int \<Rightarrow> real \<Rightarrow> error + MatchingResult list" where
  "match_companies_for_incentive W L incentive_id top_k_candidates max_cost_per_incentive =
     (case get_incentive W incentive_id of
        None \<Rightarrow> Inl (IncentiveNotFound incentive_id)
      | Some inc \<Rightarrow>
          (let similar_companies = find_similar_companies W incentive_id top_k_candidates
           in if similar_companies = [] then Inr []
              else
                (case complete W inc similar_companies of
                   None \<Rightarrow> Inl UpstreamError
                 | Some rd \<Rightarrow>
                     (case llm_rank_candidates L similar_companies 5 rd of
                        Inl e \<Rightarrow> Inl e
                      | Inr (top_5_results, llm_cost) \<Rightarrow> Inr top_5_results))))"

section \<open>MatchStore: \<open>save_matches_to_database\<close>\<close>

text \<open>
  The matches table, keyed by the \<open>UNIQUE(incentive_id, company_id)\<close> pair, and a clock
  that \<open>NOW()\<close> reads; every statement advances it.
\<close>

record match_row =
  row_score :: real
  rank_position :: nat
  row_reasoning :: "json option"
  created_at :: nat

record table =
  matches :: "((int \<times> int) \<times> match_row) list"
  clock :: nat

text \<open>\<open>DECIMAL(5,4)\<close>: four decimal places, rounded half away from zero.\<close>

definition decimal_5_4 :: "real \<Rightarrow> real" where
  "decimal_5_4 x = sgn x * of_int \<lfloor>\<bar>x\<bar> * 10000 + 1 / 2\<rfloor> / 10000"

definition py_truthy :: "json \<Rightarrow> bool" where
  "py_truthy v =
     (case v of
        JNull \<Rightarrow> False
      | JBool b \<Rightarrow> b
      | JInt i \<Rightarrow> i \<noteq> 0
      | JFloat r \<Rightarrow> r \<noteq> 0
      | JStr s \<Rightarrow> s \<noteq> []
      | JArr xs \<Rightarrow> xs \<noteq> []
      | JObj kvs \<Rightarrow> kvs \<noteq> [])"

text \<open>
  The row that one \<open>INSERT ... ON CONFLICT (incentive_id, company_id) DO UPDATE\<close>
  writes, or the error of the column type, the CHECK constraints or the foreign keys of
  \<open>CREATE_MATCHES_TABLE\<close>.
\<close>

definition checked_row ::
  "'v world \<Rightarrow> nat \<Rightarrow> int \<Rightarrow> MatchingResult \<Rightarrow> error + match_row" where
  "checked_row W now incentive_id m =
     (let s = decimal_5_4 (score m)
      in if 10 \<le> \<bar>s\<bar> then Inl NumericValueOutOfRange
         else if \<not> (0 \<le> s \<and> s \<le> 5) then Inl CheckViolation
         else if \<not> (1 \<le> rank m \<and> rank m \<le> 5) then Inl CheckViolation
         else if get_incentive W incentive_id = None \<or> \<not> company_exists W (company_id m)
           then Inl ForeignKeyViolation
         else Inr \<lparr> row_score = s, rank_position = rank m,
                    row_reasoning = (if py_truthy (reasoning m) then Some (reasoning m) else None),
                    created_at = now \<rparr>)"

definition execute_upsert ::
  "'v world \<Rightarrow> table \<Rightarrow> int \<Rightarrow> MatchingResult \<Rightarrow> error option \<times> table" where
  "execute_upsert W t incentive_id m =
     (case checked_row W (clock t) incentive_id m of
        Inl e \<Rightarrow> (Some e, t\<lparr>clock := Suc (clock t)\<rparr>)
      | Inr row \<Rightarrow>
          (None, \<lparr> matches = AList.update (incentive_id, company_id m) row (matches t),
                    clock = Suc (clock t) \<rparr>))"

text \<open>
  The loop runs on a connection from \<open>get_connection\<close>, which opens no transaction:
  each statement commits on its own, and the first one that fails ends the loop with the
  earlier rows written.
\<close>

fun save_matches_to_database ::
  "'v world \<Rightarrow> table \<Rightarrow> int \<Rightarrow> MatchingResult list \<Rightarrow> error option \<times> table" where
  "save_matches_to_database W t incentive_id [] = (None, t)"
| "save_matches_to_database W t incentive_id (m # rest) =
     (case execute_upsert W t incentive_id m of
        (Some e, t') \<Rightarrow> (Some e, t')
      | (None, t') \<Rightarrow> save_matches_to_database W t' incentive_id rest)"

section \<open>MatchOrchestrator: \<open>batch_match_all_incentives\<close>\<close>

record summary =
  total_incentives :: nat
  successful_matches :: nat
  failed_matches :: nat
  total_cost :: real
  results_by_incentive :: "(int \<times> (nat \<times> real)) list"

record batch_state =
  store :: table
  cost_so_far :: real
  successful :: nat
  failed :: nat
  by_incentive :: "(int \<times> (nat \<times> real)) list"

text \<open>Truth value of \<open>max_cost_total\<close>: \<open>None\<close> and \<open>0\<close> are false.\<close>

definition ceiling_set :: "real option \<Rightarrow> bool" where
  "ceiling_set max_cost_total = (case max_cost_total of None \<Rightarrow> False | Some c \<Rightarrow> c \<noteq> 0)"

text \<open>
  The loop over the incentives. \<open>total_cost\<close> (here \<open>cost_so_far\<close>) is initialised to
  \<open>0.0\<close>, compared with the ceiling and reported, and no statement of the loop assigns it.
  Any exception of the body is caught and counted.
\<close>

fun batch_loop ::
  "'v world \<Rightarrow> pylib \<Rightarrow> real option \<Rightarrow> bool \<Rightarrow> batch_state \<Rightarrow> incentive list \<Rightarrow> batch_state" where
  "batch_loop W L max_cost_total save_to_db st [] = st"
| "batch_loop W L max_cost_total save_to_db st (inc # rest) =
     (if ceiling_set max_cost_total \<and> the max_cost_total \<le> cost_so_far st then st
      else
        (let remaining_budget =
               (if ceiling_set max_cost_total then the max_cost_total - cost_so_far st else 0.30);
             incentive_budget = min 0.30 remaining_budget
         in case match_companies_for_incentive W L (id_i inc) 20 incentive_budget of
              Inl e \<Rightarrow>
                batch_loop W L max_cost_total save_to_db (st\<lparr>failed := Suc (failed st)\<rparr>) rest
            | Inr ms \<Rightarrow>
                (let saved = (if save_to_db \<and> ms \<noteq> []
                              then save_matches_to_database W (store st) (id_i inc) ms
                              else (None, store st))
                 in case saved of
                      (Some e, t') \<Rightarrow>
                        batch_loop W L max_cost_total save_to_db
                          (st\<lparr>store := t', failed := Suc (failed st)\<rparr>) rest
                    | (None, t') \<Rightarrow>
                        batch_loop W L max_cost_total save_to_db
                          (st\<lparr>store := t', successful := Suc (successful st),
                              by_incentive :=
                                AList.update (id_i inc)
                                  (length ms, (case ms of [] \<Rightarrow> 0.0 | m # _ \<Rightarrow> score m))
                                  (by_incentive st)\<rparr>) rest)))"

definition batch_match_all_incentives ::
  "'v world \<Rightarrow> pylib \<Rightarrow> table \<Rightarrow> real option \<Rightarrow> bool \<Rightarrow> summary \<times> table" where
  "batch_match_all_incentives W L t max_cost_total save_to_db =
     (let incentives = get_all_incentives W;
          st = batch_loop W L max_cost_total save_to_db
                 \<lparr> store = t, cost_so_far = 0.0, successful = 0, failed = 0,
                   by_incentive = [] \<rparr> incentives
      in (\<lparr> total_incentives = length incentives,
            successful_matches = successful st,
            failed_matches = failed st,
            total_cost = cost_so_far st,
            results_by_incentive = by_incentive st \<rparr>, store st))"

section \<open>The matching route: \<open>run_matching_for_incentive\<close>\<close>


section \<open>CandidatePreFilter: \<open>CompanyPreFilter\<close>\<close>

text \<open>
  Strings are sequences of code points below 256, which covers the Portuguese keyword
  tables of the class. \<open>str.lower\<close> on that range moves \<open>A\<close>..\<open>Z\<close> and the
  accented capitals (all of 192..222 but the multiplication sign) up by 32, that is, it
  sets bit 5, which is clear on both ranges.
\<close>

definition lower_char :: "char \<Rightarrow> char" where
  "lower_char c =
     (let n = of_char c :: nat
      in if (65 \<le> n \<and> n \<le> 90) \<or> (192 \<le> n \<and> n \<le> 222 \<and> n \<noteq> 215)
         then (case c of Char b0 b1 b2 b3 b4 b5 b6 b7 \<Rightarrow> Char b0 b1 b2 b3 b4 True b6 b7)
         else c)"

definition py_lower :: "string \<Rightarrow> string" where
  "py_lower s = map lower_char s"

text \<open>\<open>k in s\<close> on strings: \<open>k\<close> occurs as a contiguous piece of \<open>s\<close>.\<close>

primrec py_in :: "string \<Rightarrow> string \<Rightarrow> bool" where
  "py_in k [] = (k = [])"
| "py_in k (c # cs) = (take (length k) (c # cs) = k \<or> py_in k cs)"

text \<open>\<open>x or ''\<close> on an optional string.\<close>

definition or_empty :: "string option \<Rightarrow> string" where
  "or_empty x = (case x of None \<Rightarrow> [] | Some s \<Rightarrow> s)"

text \<open>\<open>s.split()\<close>: the maximal runs of non-space characters.\<close>

fun split_from :: "string \<Rightarrow> string \<Rightarrow> string list" where
  "split_from cur [] = (if cur = [] then [] else [cur])"
| "split_from cur (c # cs) =
     (if py_isspace c
      then (if cur = [] then split_from [] cs else cur # split_from [] cs)
      else split_from (cur @ [c]) cs)"

definition py_split :: "string \<Rightarrow> string list" where
  "py_split s = split_from [] s"

record CompanyModel =
  m_id :: "int option"
  m_company_name :: string
  m_cae_primary_label :: "string option"
  m_trade_description_native :: "string option"
  m_website :: "string option"
  m_created_at :: "nat option"

text \<open>The dict that \<open>_extract_incentive_criteria\<close> returns.\<close>

record criteria =
  target_sectors :: "string list"
  relevant_keywords :: "string list"
  innovation_focus :: bool
  sustainability_focus :: bool
  digital_focus :: bool
  regions :: "string list"

definition sector_keywords :: "(string \<times> string list) list" where
  "sector_keywords =
     [(''industria'',
         [''manufacturing'', ''production'', ''industrial'', ''factory'',
          ''fabrica'' @ [CHR 0xE7] @ [CHR 0xE3] @ ''o'',
          ''produ'' @ [CHR 0xE7] @ [CHR 0xE3] @ ''o'',
          ''ind'' @ [CHR 0xFA] @ ''stria'']),
      (''tecnologia'',
         [''technology'', ''software'', ''digital'', ''IT'', ''tech'',
          ''tecnologia'', ''inform'' @ [CHR 0xE1] @ ''tica'']),
      (''turismo'',
         [''tourism'', ''hotel'', ''restaurant'', ''travel'', ''turismo'',
          ''hospitalidade'']),
      (''agricultura'',
         [''agriculture'', ''farming'', ''agro'', ''agricultura'',
          ''pecu'' @ [CHR 0xE1] @ ''ria'']),
      (''energia'',
         [''energy'', ''renewable'', ''solar'', ''wind'', ''energia'',
          ''renov'' @ [CHR 0xE1] @ ''vel'']),
      (''comercio'',
         [''retail'', ''commerce'', ''trading'',
          ''com'' @ [CHR 0xE9] @ ''rcio'', ''vendas'']),
      (''servicos'',
         [''services'', ''consulting'', ''servi'' @ [CHR 0xE7] @ ''os'',
          ''consultoria'']),
      (''construcao'',
         [''construction'', ''building'',
          ''constru'' @ [CHR 0xE7] @ [CHR 0xE3] @ ''o'', ''obra'']),
      (''saude'',
         [''health'', ''medical'', ''healthcare'',
          ''sa'' @ [CHR 0xFA] @ ''de'', ''medicina'']),
      (''educacao'',
         [''education'', ''training'',
          ''educa'' @ [CHR 0xE7] @ [CHR 0xE3] @ ''o'',
          ''forma'' @ [CHR 0xE7] @ [CHR 0xE3] @ ''o''])]"

definition innovation_keywords :: "string list" where
  "innovation_keywords =
     [''inova'' @ [CHR 0xE7] @ [CHR 0xE3] @ ''o'', ''innovation'', ''I&D'',
      ''R&D'', ''research'', ''desenvolvimento'', ''tecnologia'',
      ''technology'', ''digital'',
      ''automatiza'' @ [CHR 0xE7] @ [CHR 0xE3] @ ''o'', ''automation'',
      ''intelig'' @ [CHR 0xEA] @ ''ncia artificial'',
      ''artificial intelligence'', ''AI'', ''machine learning'', ''startup'',
      ''patente'', ''patent'', ''laborat'' @ [CHR 0xF3] @ ''rio'',
      ''laboratory'']"

definition sustainability_keywords :: "string list" where
  "sustainability_keywords =
     [''sustent'' @ [CHR 0xE1] @ ''vel'', ''sustainable'', ''verde'',
      ''green'', ''eco'', ''ambiente'', ''environment'', ''renewable'',
      ''renov'' @ [CHR 0xE1] @ ''vel'',
      ''efici'' @ [CHR 0xEA] @ ''ncia energ'' @ [CHR 0xE9] @ ''tica'',
      ''energy efficiency'', ''carbon'', ''carbono'', ''reciclagem'',
      ''recycling'']"

definition digital_keywords :: "string list" where
  "digital_keywords =
     [''digital'', ''digitalization'',
      ''digitaliza'' @ [CHR 0xE7] @ [CHR 0xE3] @ ''o'', ''online'',
      ''e-commerce'', ''plataforma'', ''platform'', ''software'', ''app'',
      ''website'', ''sistema'',
      ''automatiza'' @ [CHR 0xE7] @ [CHR 0xE3] @ ''o'', ''automation'',
      ''cloud'', ''nuvem'']"

definition incentive_terms :: "string list" where
  "incentive_terms =
     [''apoio'', ''incentivo'', ''fundo'', ''financiamento'',
      ''subs'' @ [CHR 0xED] @ ''dio'',
      ''moderniza'' @ [CHR 0xE7] @ [CHR 0xE3] @ ''o'',
      ''inova'' @ [CHR 0xE7] @ [CHR 0xE3] @ ''o'', ''desenvolvimento'',
      ''crescimento'', ''competitividade'',
      ''exporta'' @ [CHR 0xE7] @ [CHR 0xE3] @ ''o'',
      ''internacionaliza'' @ [CHR 0xE7] @ [CHR 0xE3] @ ''o'', ''support'',
      ''funding'', ''grant'', ''development'', ''innovation'']"

definition sector_agnostic_terms :: "string list" where
  "sector_agnostic_terms =
     [''empresa'', ''neg'' @ [CHR 0xF3] @ ''cio'', ''atividade'',
      ''projeto'', ''investimento'']"

text \<open>
  The \<open>else\<close> branch of the sector loop: the table is walked in order; a sector named
  by the incentive appends the company when one of its keywords occurs in the label, and
  the walk stops as soon as the company is in \<open>filtered\<close>.
\<close>

fun sector_keyword_scan ::
  "CompanyModel \<Rightarrow> string \<Rightarrow> string list \<Rightarrow> (string \<times> string list) list
     \<Rightarrow> CompanyModel list \<Rightarrow> CompanyModel list" where
  "sector_keyword_scan company cae_lower target_sectors_lower [] filtered = filtered"
| "sector_keyword_scan company cae_lower target_sectors_lower ((sector, keywords) # rest) filtered =
     (if sector \<in> set target_sectors_lower
      then
        (let filtered' = (if \<exists>keyword\<in>set keywords. py_in (py_lower keyword) cae_lower
                          then filtered @ [company] else filtered)
         in if company \<in> set filtered' then filtered'
            else sector_keyword_scan company cae_lower target_sectors_lower rest filtered')
      else sector_keyword_scan company cae_lower target_sectors_lower rest filtered)"

fun sector_loop ::
  "string list \<Rightarrow> CompanyModel list \<Rightarrow> CompanyModel list \<Rightarrow> CompanyModel list" where
  "sector_loop target_sectors_lower filtered [] = filtered"
| "sector_loop target_sectors_lower filtered (company # rest) =
     (if or_empty (m_cae_primary_label company) = []
      then sector_loop target_sectors_lower filtered rest
      else
        (let cae_lower = py_lower (or_empty (m_cae_primary_label company))
         in if \<exists>sector\<in>set target_sectors_lower. py_in sector cae_lower
            then sector_loop target_sectors_lower (filtered @ [company]) rest
            else sector_loop target_sectors_lower
                   (sector_keyword_scan company cae_lower target_sectors_lower
                      sector_keywords filtered) rest))"

definition filter_by_sector :: "CompanyModel list \<Rightarrow> string list \<Rightarrow> CompanyModel list" where
  "filter_by_sector companies target_sectors' =
     (if target_sectors' = [] then companies
      else sector_loop (map py_lower target_sectors') [] companies)"

definition filter_by_keywords :: "CompanyModel list \<Rightarrow> string list \<Rightarrow> CompanyModel list" where
  "filter_by_keywords companies keywords =
     (if keywords = [] then companies
      else
        (let keywords_lower = map py_lower (filter (\<lambda>k. k \<noteq> []) keywords)
         in filter (\<lambda>company.
                      \<exists>keyword\<in>set keywords_lower.
                        py_in keyword (py_lower (or_empty (m_trade_description_native company))))
              companies))"

definition company_text :: "CompanyModel \<Rightarrow> string" where
  "company_text company =
     or_empty (m_trade_description_native company) @ '' ''
       @ or_empty (m_cae_primary_label company)"

definition filter_by_focus_areas :: "CompanyModel list \<Rightarrow> string list \<Rightarrow> CompanyModel list" where
  "filter_by_focus_areas companies focus_keywords =
     (if focus_keywords = [] then companies
      else
        (let focus_lower = map py_lower focus_keywords
         in filter (\<lambda>company.
                      \<exists>keyword\<in>set focus_lower. py_in keyword (py_lower (company_text company)))
              companies))"

definition incentive_text :: "incentive \<Rightarrow> string" where
  "incentive_text inc = title inc @ '' '' @ or_empty (description inc)"

text \<open>
  The relevance score of \<open>_rank_and_limit_candidates\<close>, in exact arithmetic: the Jaccard
  similarity of the two word sets, 0.1 for every incentive word longer than 3 that occurs
  in the company text, 0.2 when an innovation keyword occurs in it.
\<close>

definition relevance_score :: "string list \<Rightarrow> CompanyModel \<Rightarrow> real" where
  "relevance_score incentive_words company =
     (let company_words = remdups (py_split (py_lower (company_text company)));
          intersection = length (filter (\<lambda>w. w \<in> set company_words) incentive_words);
          union = length (remdups (incentive_words @ company_words));
          jaccard = (if 0 < union then real intersection / real union else 0);
          density = 0.1 * real (length (filter
                      (\<lambda>word. 3 < length word \<and> py_in word (py_lower (company_text company)))
                      incentive_words));
          bonus = (if \<exists>keyword\<in>set innovation_keywords.
                        py_in (py_lower keyword) (py_lower (company_text company))
                   then 0.2 else 0)
      in jaccard + density + bonus)"

text \<open>
  \<open>sort(key=..., reverse=True)\<close> keeps equal scores in their original order, as the
  stable \<^const>\<open>sort_key\<close> on the negated score does.
\<close>

definition rank_and_limit_candidates ::
  "CompanyModel list \<Rightarrow> incentive \<Rightarrow> int \<Rightarrow> CompanyModel list" where
  "rank_and_limit_candidates companies inc limit =
     (let incentive_words = remdups (py_split (py_lower (incentive_text inc)));
          scored_companies = map (\<lambda>company. (relevance_score incentive_words company, company))
                               companies
      in map snd (py_take limit (sort_key (\<lambda>x. - fst x) scored_companies)))"

definition extract_general_keywords :: "incentive \<Rightarrow> string list" where
  "extract_general_keywords inc =
     (let text_lower = py_lower (incentive_text inc)
      in filter (\<lambda>term. py_in term text_lower) incentive_terms @ sector_agnostic_terms)"

text \<open>
  The scan of \<open>_expand_candidate_pool\<close> over the full company list; it stops when
  \<open>target_count\<close> candidates are collected.
\<close>

fun expand_loop ::
  "string list \<Rightarrow> int \<Rightarrow> CompanyModel list \<Rightarrow> CompanyModel list \<Rightarrow> CompanyModel list" where
  "expand_loop general_keywords target_count candidates [] = candidates"
| "expand_loop general_keywords target_count candidates (company # rest) =
     (if target_count \<le> int (length candidates) then candidates
      else if \<exists>keyword\<in>set general_keywords.
                 py_in (py_lower keyword) (py_lower (company_text company))
      then expand_loop general_keywords target_count (candidates @ [company]) rest
      else expand_loop general_keywords target_count candidates rest)"

text \<open>
  \<open>random.sample\<close> is a parameter: any function from a population and a size to a list.
  The function takes the full company list and builds its candidates from the empty
  list; the candidates of the earlier stages are not among its arguments.
\<close>

definition expand_candidate_pool ::
  "(CompanyModel list \<Rightarrow> nat \<Rightarrow> CompanyModel list) \<Rightarrow> CompanyModel list \<Rightarrow> incentive \<Rightarrow> int
     \<Rightarrow> CompanyModel list" where
  "expand_candidate_pool random_sample all_companies inc target_count =
     (let general_keywords = extract_general_keywords inc;
          candidates = expand_loop general_keywords target_count [] all_companies
      in if int (length candidates) < target_count div 2
         then
           (let remaining_needed = target_count - int (length candidates);
                available_companies = filter (\<lambda>c. c \<notin> set candidates) all_companies
            in if remaining_needed < int (length available_companies)
               then candidates @ random_sample available_companies (nat remaining_needed)
               else candidates @ available_companies)
         else candidates)"

text \<open>
  The stages of \<open>filter_companies_for_incentive\<close> before the under-shoot correction,
  on the criteria extracted from the incentive.
\<close>

definition surviving ::
  "criteria \<Rightarrow> CompanyModel list \<Rightarrow> incentive \<Rightarrow> int \<Rightarrow> CompanyModel list" where
  "surviving crit companies inc target_count =
     (let candidates1 = (if target_sectors crit \<noteq> []
                         then filter_by_sector companies (target_sectors crit) else companies);
          candidates2 = (if relevant_keywords crit \<noteq> []
                         then filter_by_keywords candidates1 (relevant_keywords crit)
                         else candidates1);
          focus_filters = (if innovation_focus crit then innovation_keywords else [])
                            @ (if sustainability_focus crit then sustainability_keywords else [])
                            @ (if digital_focus crit then digital_keywords else []);
          candidates3 = (if focus_filters \<noteq> []
                         then filter_by_focus_areas candidates2 focus_filters else candidates2)
      in if target_count < int (length candidates3)
         then rank_and_limit_candidates candidates3 inc target_count
         else candidates3)"

definition filter_companies_for_incentive ::
  "(CompanyModel list \<Rightarrow> nat \<Rightarrow> CompanyModel list) \<Rightarrow> criteria \<Rightarrow> CompanyModel list
     \<Rightarrow> incentive \<Rightarrow> int \<Rightarrow> CompanyModel list" where
  "filter_companies_for_incentive random_sample crit companies inc target_count =
     (let candidates = surviving crit companies inc target_count
      in if int (length candidates) < target_count div 2
         then expand_candidate_pool random_sample companies inc target_count
         else candidates)"

section \<open>Notions used in the statements\<close>

text \<open>
  The 0-based position of the candidate that the entry at rank \<open>rnk\<close> names, when the
  bounds guard lets the entry through: \<open>company_number\<close> defaults to the rank, and
  \<open>True\<close> counts as 1.
\<close>

definition entry_index :: "nat \<Rightarrow> nat \<Rightarrow> json \<Rightarrow> nat option" where
  "entry_index n rnk result =
     (case dict_get result ''company_number'' (JInt (int rnk)) of
        Inr (JInt i) \<Rightarrow> if 1 \<le> i \<and> i \<le> int n then Some (nat (i - 1)) else None
      | Inr (JBool b) \<Rightarrow> if b \<and> 1 \<le> n then Some 0 else None
      | _ \<Rightarrow> None)"

text \<open>
  The entries of a response array that name a candidate in range, each with its 1-based
  place in the array (counted from \<open>start\<close>) and the candidate position it names.
\<close>

definition selected :: "nat \<Rightarrow> nat \<Rightarrow> json list \<Rightarrow> (nat \<times> nat) list" where
  "selected n start entries =
     List.map_filter (\<lambda>(k, e). map_option (Pair k) (entry_index n k e)) (enumerate start entries)"

text \<open>
  What claim C1 asks of a result list: ranks that form the contiguous sequence from 1 to
  the length, and companies that occur at most once (with the incentive fixed, these are
  the (incentive, company) pairs).
\<close>

definition ranks_contiguous :: "MatchingResult list \<Rightarrow> bool" where
  "ranks_contiguous ms = (map rank ms = [1..<Suc (length ms)])"

definition companies_unique :: "MatchingResult list \<Rightarrow> bool" where
  "companies_unique ms = distinct (map company_id ms)"

text \<open>The exceptions that a call in the loop body can raise.\<close>

definition body_error :: "error \<Rightarrow> bool" where
  "body_error e = (e = AttributeError \<or> e = TypeError \<or> e = ValueError)"

text \<open>The stored rows without their timestamp, and the number of rows of one incentive.\<close>

type_synonym stored_row = "real \<times> nat \<times> json option"

definition stored :: "table \<Rightarrow> ((int \<times> int) \<times> stored_row) list" where
  "stored t = map (\<lambda>(k, r). (k, (row_score r, rank_position r, row_reasoning r))) (matches t)"


text \<open>
  The error of one statement does not depend on the clock or on the stored rows; the
  statements of a call that run are those before the first failing one.
\<close>

definition row_error :: "'v world \<Rightarrow> int \<Rightarrow> MatchingResult \<Rightarrow> error option" where
  "row_error W incentive_id m =
     (case checked_row W 0 incentive_id m of Inl e \<Rightarrow> Some e | Inr row \<Rightarrow> None)"

definition written ::
  "'v world \<Rightarrow> int \<Rightarrow> MatchingResult list \<Rightarrow> ((int \<times> int) \<times> stored_row) list" where
  "written W incentive_id ms =
     map (\<lambda>m. ((incentive_id, company_id m),
               (decimal_5_4 (score m), rank m,
                if py_truthy (reasoning m) then Some (reasoning m) else None)))
       (takeWhile (\<lambda>m. row_error W incentive_id m = None) ms)"

definition upserts :: "('k \<times> 'v) list \<Rightarrow> ('k \<times> 'v) list \<Rightarrow> ('k \<times> 'v) list" where
  "upserts kvs al = fold (\<lambda>(k, v). AList.update k v) kvs al"

text \<open>A company whose text contains one of the broadened keywords of the incentive.\<close>

definition broad_match :: "incentive \<Rightarrow> CompanyModel \<Rightarrow> bool" where
  "broad_match inc company =
     (\<exists>keyword\<in>set (extract_general_keywords inc).
        py_in (py_lower keyword) (py_lower (company_text company)))"

section \<open>Concrete inputs\<close>

definition ex_candidate :: "int \<Rightarrow> real \<Rightarrow> candidate" where
  "ex_candidate i s =
     \<lparr> id_c = i, company_name = ''Empresa'', cae_primary_label = None,
       trade_description_native = None, website = None, similarity_score = s \<rparr>"

definition ex_pair :: "candidate list" where
  "ex_pair = [ex_candidate 7 0.9, ex_candidate 8 0.8]"


text \<open>
  The library functions on the texts used below: \<open>json.loads\<close> as a table of the
  response texts that are JSON (any other text is malformed), no numeric strings, and the
  \<open>:.3f\<close> format of the two similarity scores that occur.
\<close>

definition ex_lib :: pylib where
  \<open>ex_lib =
     \<lparr> json_loads = map_of
         [(''[]'', JArr []),
          (''[{}]'', JArr [JObj []]),
          (''{}'', JObj []),
          (''[{"company_number": 9}, {"company_number": 1}, {"company_number": 1}]'',
             JArr [JObj [(''company_number'', JInt 9)], JObj [(''company_number'', JInt 1)],
                   JObj [(''company_number'', JInt 1)]]),
          (''[{"company_number": 2}, {"company_number": 1}]'',
             JArr [JObj [(''company_number'', JInt 2)], JObj [(''company_number'', JInt 1)]])],
       float_of_str = (\<lambda>s. None),
       format_3f = (\<lambda>r. if r = 0.9 then ''0.900'' else ''0.800'') \<rparr>\<close>

definition ex_incentive :: "int \<Rightarrow> incentive" where
  "ex_incentive i = \<lparr> id_i = i, title = ''Apoio'', description = None \<rparr>"

text \<open>
  A world with the incentives \<open>ids\<close>, all embedded, the companies \<open>cs\<close> as the
  nearest neighbours of each, and a scoring call that answers \<open>text\<close> and reports 1000
  prompt tokens, 100 completion tokens and a cost of 0.05.
\<close>

definition ex_world :: "int list \<Rightarrow> candidate list \<Rightarrow> string \<Rightarrow> unit world" where
  "ex_world ids cs text =
     \<lparr> get_incentive = (\<lambda>i. if i \<in> set ids then Some (ex_incentive i) else None),
       get_all_incentives = map ex_incentive ids,
       company_exists = (\<lambda>c. c \<in> set (map id_c cs)),
       embedding_of = (\<lambda>i. if i \<in> set ids then Some () else None),
       nearest = (\<lambda>v limit. take (nat limit) cs),
       complete = (\<lambda>inc cands. Some (complete_result text 1000 100 0.05)) \<rparr>"

definition empty_table :: table where
  "empty_table = \<lparr> matches = [], clock = 0 \<rparr>"

definition ex_result :: "int \<Rightarrow> nat \<Rightarrow> MatchingResult" where
  "ex_result c r =
     \<lparr> company_id = c, score = 4.0, rank = r,
       reasoning = JObj [(''recommendation'', JStr ''ok'')] \<rparr>"


definition ex_company :: "int \<Rightarrow> string \<Rightarrow> CompanyModel" where
  "ex_company i d =
     \<lparr> m_id = Some i, m_company_name = ''Co'', m_cae_primary_label = None,
       m_trade_description_native = Some d, m_website = None, m_created_at = None \<rparr>"

text \<open>\<open>random.sample\<close> drawing the first \<open>k\<close> of the population.\<close>

definition ex_sample :: "CompanyModel list \<Rightarrow> nat \<Rightarrow> CompanyModel list" where
  "ex_sample population k = take k population"

text \<open>
  The incentive titled \<open>Apoio\<close> with no description and no structured metadata, and
  the criteria extracted from it: no sector, no focus flag, and the one keyword of its
  title.
\<close>

definition ex_apoio :: incentive where
  "ex_apoio = \<lparr> id_i = 1, title = ''Apoio'', description = None \<rparr>"

definition ex_criteria :: criteria where
  "ex_criteria =
     \<lparr> target_sectors = [], relevant_keywords = [''apoio''], innovation_focus = False,
       sustainability_focus = False, digital_focus = False, regions = [] \<rparr>"

section \<open>Auxiliary facts\<close>

subsection \<open>The ranking loop\<close>

lemma ebind_Inr: "ebind m f = Inr y \<Longrightarrow> \<exists>x. m = Inr x \<and> f x = Inr y"
  by (cases m) (simp_all add: ebind_def)

lemma ebind_Inl: "ebind m f = Inl e \<Longrightarrow> m = Inl e \<or> (\<exists>x. m = Inr x \<and> f x = Inl e)"
  by (cases m) (simp_all add: ebind_def)

lemma dict_get_err: "dict_get d k v = Inl e \<Longrightarrow> e = AttributeError"
  by (auto simp: dict_get_def split: json.splits)

lemma py_float_err: "py_float L v = Inl e \<Longrightarrow> e = ValueError \<or> e = TypeError"
  by (auto simp: py_float_def split: json.splits option.splits if_splits)

lemma in_bounds_err: "in_bounds v n = Inl e \<Longrightarrow> e = TypeError"
  by (auto simp: in_bounds_def split: json.splits)

lemma index_candidate_err: "index_candidate cs v = Inl e \<Longrightarrow> e = TypeError"
  by (auto simp: index_candidate_def split: json.splits)

lemma component_score_err: "component_score L r k = Inl e \<Longrightarrow> body_error e"
  unfolding component_score_def body_error_def
  by (auto dest!: ebind_Inl dest: dict_get_err py_float_err)

lemma entry_final_score_err: "entry_final_score L r = Inl e \<Longrightarrow> body_error e"
  unfolding entry_final_score_def
  by (auto simp: Let_def body_error_def dest!: ebind_Inl dest: dict_get_err py_float_err component_score_err[unfolded body_error_def] split: if_splits)

lemma process_entry_err: "process_entry L cs r x = Inl e \<Longrightarrow> body_error e"
  unfolding process_entry_def
  by (auto simp: Let_def body_error_def dest!: ebind_Inl dest: dict_get_err in_bounds_err index_candidate_err entry_final_score_err[unfolded body_error_def] component_score_err[unfolded body_error_def] split: if_splits prod.splits)

lemma process_entry_Some:
  assumes "process_entry L cs r x = Inr (Some m)"
  shows "rank m = r \<and> 1 \<le> score m \<and> score m \<le> 5 \<and>
         (\<exists>i. entry_index (length cs) r x = Some i \<and> i < length cs \<and> company_id m = id_c (cs ! i))"
  using assms unfolding process_entry_def entry_index_def
  by (auto simp: Let_def clamp_score_def in_bounds_def index_candidate_def dest!: ebind_Inr split: if_splits prod.splits json.splits)

lemma process_entry_None:
  assumes "process_entry L cs r x = Inr None"
  shows "entry_index (length cs) r x = None"
  using assms unfolding process_entry_def entry_index_def
  by (auto simp: Let_def in_bounds_def index_candidate_def dest!: ebind_Inr split: if_splits prod.splits json.splits)

lemma rank_loop_err: "rank_loop L cs r xs = Inl e \<Longrightarrow> body_error e"
  by (induction xs arbitrary: r) (auto split: sum.splits dest: process_entry_err)

lemma entry_index_bound: "entry_index n k e = Some i \<Longrightarrow> i < n"
  by (auto simp: entry_index_def split: sum.splits json.splits if_splits)

lemma selected_Cons:
  "selected n r (x # xs) =
     (case entry_index n r x of None \<Rightarrow> selected n (Suc r) xs
      | Some i \<Rightarrow> (r, i) # selected n (Suc r) xs)"
  by (simp add: selected_def split: option.splits)

lemma selected_Nil: "selected n r [] = []"
  by (simp add: selected_def)

lemma rank_loop_selected:
  "rank_loop L cs r xs = Inr ms \<Longrightarrow>
     map (\<lambda>m. (rank m, company_id m)) ms = map (\<lambda>(k, i). (k, id_c (cs ! i))) (selected (length cs) r xs)"
proof (induction xs arbitrary: r ms)
  case Nil
  then show ?case by (simp add: selected_Nil)
next
  case (Cons x xs)
  from Cons.prems obtain mo ms' where pe: "process_entry L cs r x = Inr mo"
    and rl: "rank_loop L cs (Suc r) xs = Inr ms'"
    and ms: "ms = (case mo of None \<Rightarrow> ms' | Some m \<Rightarrow> m # ms')"
    by (auto split: sum.splits)
  note ih = Cons.IH[OF rl]
  show ?case
  proof (cases mo)
    case None
    with pe have "entry_index (length cs) r x = None" by (simp add: process_entry_None)
    with ih ms None show ?thesis by (simp add: selected_Cons)
  next
    case (Some m)
    with pe process_entry_Some[of L cs r x m] obtain i where
      "rank m = r" "entry_index (length cs) r x = Some i" "company_id m = id_c (cs ! i)" by auto
    with ih ms Some show ?thesis by (simp add: selected_Cons)
  qed
qed

lemma selected_bounds:
  "(k, i) \<in> set (selected n r xs) \<Longrightarrow> r \<le> k \<and> k < r + length xs \<and> i < n"
proof (induction xs arbitrary: r)
  case Nil then show ?case by (simp add: selected_Nil)
next
  case (Cons x xs)
  then show ?case
    by (fastforce simp: selected_Cons dest: entry_index_bound split: option.splits)
qed

lemma selected_sorted: "sorted_wrt (<) (map fst (selected n r xs))"
proof (induction xs arbitrary: r)
  case Nil show ?case by (simp add: selected_Nil)
next
  case (Cons x xs)
  have "\<forall>k\<in>set (map fst (selected n (Suc r) xs)). r < k"
    using selected_bounds[of _ _ n "Suc r" xs] by fastforce
  with Cons[of "Suc r"] show ?case
    by (auto simp: selected_Cons split: option.splits)
qed

lemma selected_length: "length (selected n r xs) \<le> length xs"
proof (induction xs arbitrary: r)
  case Nil show ?case by (simp add: selected_Nil)
next
  case (Cons x xs)
  from Cons[of "Suc r"] show ?case by (simp add: selected_Cons split: option.splits)
qed

lemma selected_full:
  "length (selected n r xs) = length xs \<Longrightarrow> map fst (selected n r xs) = [r..<r + length xs]"
proof (induction xs arbitrary: r)
  case Nil show ?case by (simp add: selected_Nil)
next
  case (Cons x xs)
  have le: "length (selected n (Suc r) xs) \<le> length xs" by (rule selected_length)
  show ?case
  proof (cases "entry_index n r x")
    case None
    with Cons.prems le show ?thesis by (simp add: selected_Cons)
  next
    case (Some i)
    with Cons.prems have "length (selected n (Suc r) xs) = length xs"
      by (simp add: selected_Cons)
    from Cons.IH[OF this] have ih: "map fst (selected n (Suc r) xs) = [Suc r..<Suc r + length xs]" .
    have e: "[r..<r + length (x # xs)] = r # [Suc r..<Suc r + length xs]"
      by (subst upt_rec) simp
    show ?thesis unfolding e using ih Some by (simp add: selected_Cons del: upt_Suc)
  qed
qed

subsection \<open>The fallback\<close>

lemma fallback_loop_length: "length (fallback_loop L e r cs) = length cs"
  by (induction cs arbitrary: r) simp_all


lemma fallback_loop_ranks: "map rank (fallback_loop L e r cs) = [r..<r + length cs]"
proof (induction cs arbitrary: r)
  case Nil show ?case by simp
next
  case (Cons c cs)
  have e: "[r..<r + length (c # cs)] = r # [Suc r..<Suc r + length cs]"
    by (subst upt_rec) simp
  show ?case unfolding e using Cons[of "Suc r"] by (simp del: upt_Suc)
qed

lemma fallback_loop_ids: "map company_id (fallback_loop L e r cs) = map id_c cs"
  by (induction cs arbitrary: r) simp_all

lemma py_take_length_le: "0 \<le> n \<Longrightarrow> length (py_take n xs) \<le> nat n"
  by (simp add: py_take_def)

lemma py_take_nonneg: "0 \<le> n \<Longrightarrow> py_take n xs = take (nat n) xs"
  by (simp add: py_take_def)


subsection \<open>Unfolding the model on concrete inputs\<close>

lemmas ex_defs = ex_candidate_def ex_lib_def ex_incentive_def ex_world_def complete_result_def

lemmas model_defs = match_companies_for_incentive_def find_similar_companies_def
  llm_rank_candidates_def parse_and_rank_def py_strip_def py_isspace_def py_take_def
  process_entry_def entry_final_score_def component_score_def dict_get_def
  py_float_def in_bounds_def index_candidate_def clamp_score_def has_key_def set_key_def ebind_def
  caught_def Let_def

subsection \<open>The shape of a ranking\<close>

lemma distinct_pick:
  assumes d: "distinct (map f cs)" and di: "distinct js" and b: "\<forall>i\<in>set js. i < length cs"
  shows "distinct (map (\<lambda>i. f (cs ! i)) js)"
proof -
  have "inj_on (\<lambda>i. f (cs ! i)) (set js)"
  proof (rule inj_onI)
    fix i j assume i: "i \<in> set js" and j: "j \<in> set js" and e: "f (cs ! i) = f (cs ! j)"
    from i j b have li: "i < length (map f cs)" and lj: "j < length (map f cs)" by auto
    from e li lj have "map f cs ! i = map f cs ! j" by simp
    with nth_eq_iff_index_eq[OF d li lj] show "i = j" by simp
  qed
  with di show ?thesis by (simp add: distinct_map)
qed

lemma llm_rank_shape:
  assumes res: "llm_rank_candidates L cs top_n rd = Inr (ms, c)" and n: "0 \<le> top_n"
  shows "length ms \<le> nat top_n"
    and "\<forall>m\<in>set ms. 1 \<le> rank m \<and> rank m \<le> nat top_n"
    and "sorted_wrt (<) (map rank ms)"
    and "(\<forall>es. json_loads L (py_strip (content rd)) = Some (JArr es) \<longrightarrow>
             length ms = length (py_take top_n es)) \<Longrightarrow> map rank ms = [1..<Suc (length ms)]"
    and "distinct (map id_c cs) \<Longrightarrow>
         (\<forall>es. json_loads L (py_strip (content rd)) = Some (JArr es) \<longrightarrow>
             distinct (map snd (selected (length cs) 1 (py_take top_n es)))) \<Longrightarrow>
         distinct (map company_id ms)"
proof -
  consider (ok) "parse_and_rank L cs top_n (content rd) = Inr ms"
    | (fb) e where "parse_and_rank L cs top_n (content rd) = Inl e" "caught e"
        "ms = fallback_loop L e 1 (py_take top_n cs)"
    using res by (auto simp: llm_rank_candidates_def Let_def split: sum.splits if_splits)
  then have "length ms \<le> nat top_n \<and>
    (\<forall>m\<in>set ms. 1 \<le> rank m \<and> rank m \<le> nat top_n) \<and>
    sorted_wrt (<) (map rank ms) \<and>
    ((\<forall>es. json_loads L (py_strip (content rd)) = Some (JArr es) \<longrightarrow>
             length ms = length (py_take top_n es)) \<longrightarrow> map rank ms = [1..<Suc (length ms)]) \<and>
    (distinct (map id_c cs) \<longrightarrow>
         (\<forall>es. json_loads L (py_strip (content rd)) = Some (JArr es) \<longrightarrow>
             distinct (map snd (selected (length cs) 1 (py_take top_n es)))) \<longrightarrow>
         distinct (map company_id ms))"
  proof cases
    case ok
    then obtain es where es: "json_loads L (py_strip (content rd)) = Some (JArr es)"
      and rl: "rank_loop L cs 1 (py_take top_n es) = Inr ms"
      by (auto simp: parse_and_rank_def split: option.splits json.splits)
    define es' where "es' = py_take top_n es"
    define sel where "sel = selected (length cs) 1 es'"
    have le': "length es' \<le> nat top_n" unfolding es'_def by (rule py_take_length_le[OF n])
    from rank_loop_selected[OF rl]
    have ch: "map (\<lambda>m. (rank m, company_id m)) ms = map (\<lambda>(k, i). (k, id_c (cs ! i))) sel"
      by (simp add: sel_def es'_def)
    from arg_cong[OF ch, of "map fst"] have rk: "map rank ms = map fst sel"
      by (simp add: comp_def case_prod_beta)
    from arg_cong[OF ch, of "map snd"] have ci: "map company_id ms = map (\<lambda>i. id_c (cs ! i)) (map snd sel)"
      by (simp add: comp_def case_prod_beta)
    from arg_cong[OF rk, of length] have len: "length ms = length sel" by simp
    have a: "length ms \<le> nat top_n"
      using len selected_length[of "length cs" 1 es'] le' by (simp add: sel_def)
    have b: "\<forall>m\<in>set ms. 1 \<le> rank m \<and> rank m \<le> nat top_n"
    proof
      fix m assume "m \<in> set ms"
      then have "rank m \<in> set (map fst sel)" using rk by (metis image_eqI set_map)
      then obtain i where "(rank m, i) \<in> set sel" by auto
      from selected_bounds[OF this[unfolded sel_def]] le'
      show "1 \<le> rank m \<and> rank m \<le> nat top_n" by simp
    qed
    have c: "sorted_wrt (<) (map rank ms)" unfolding rk sel_def by (rule selected_sorted)
    have d: "map rank ms = [1..<Suc (length ms)]"
      if "\<forall>es. json_loads L (py_strip (content rd)) = Some (JArr es) \<longrightarrow>
             length ms = length (py_take top_n es)"
    proof -
      from that es have "length ms = length es'" by (simp add: es'_def)
      with len have "length sel = length es'" by simp
      from selected_full[OF this[unfolded sel_def]] \<open>length ms = length es'\<close>
      show ?thesis by (simp add: rk sel_def)
    qed
    have e: "distinct (map company_id ms)"
      if dc: "distinct (map id_c cs)" and
         "\<forall>es. json_loads L (py_strip (content rd)) = Some (JArr es) \<longrightarrow>
             distinct (map snd (selected (length cs) 1 (py_take top_n es)))"
    proof -
      from that es have ds: "distinct (map snd sel)" by (simp add: sel_def es'_def)
      have "\<forall>i\<in>set (map snd sel). i < length cs"
        using selected_bounds[of _ _ "length cs" 1 es'] by (auto simp: sel_def)
      from distinct_pick[OF dc ds this] show ?thesis by (simp add: ci)
    qed
    from a b c d e show ?thesis by blast
  next
    case fb
    have ms: "ms = fallback_loop L e 1 (take (nat top_n) cs)"
      using fb n by (simp add: py_take_nonneg)
    have a: "length ms \<le> nat top_n" by (simp add: ms fallback_loop_length)
    have rk: "map rank ms = [1..<Suc (length ms)]"
      by (simp add: ms fallback_loop_ranks fallback_loop_length del: upt_Suc)
    have b: "\<forall>m\<in>set ms. 1 \<le> rank m \<and> rank m \<le> nat top_n"
    proof
      fix m assume "m \<in> set ms"
      then have "rank m \<in> set (map rank ms)" by simp
      then show "1 \<le> rank m \<and> rank m \<le> nat top_n" unfolding rk using a by auto
    qed
    have c: "sorted_wrt (<) (map rank ms)" unfolding rk by (simp del: upt_Suc)
    have e: "distinct (map id_c cs) \<Longrightarrow> distinct (map company_id ms)"
      by (simp add: ms fallback_loop_ids distinct_take flip: take_map)
    from a b c rk e show ?thesis by blast
  qed
  then show "length ms \<le> nat top_n"
    and "\<forall>m\<in>set ms. 1 \<le> rank m \<and> rank m \<le> nat top_n"
    and "sorted_wrt (<) (map rank ms)"
    and "(\<forall>es. json_loads L (py_strip (content rd)) = Some (JArr es) \<longrightarrow>
             length ms = length (py_take top_n es)) \<Longrightarrow> map rank ms = [1..<Suc (length ms)]"
    and "distinct (map id_c cs) \<Longrightarrow>
         (\<forall>es. json_loads L (py_strip (content rd)) = Some (JArr es) \<longrightarrow>
             distinct (map snd (selected (length cs) 1 (py_take top_n es)))) \<Longrightarrow>
         distinct (map company_id ms)"
    by blast+
qed

lemma llm_rank_err:
  "llm_rank_candidates L cs n rd = Inl e \<Longrightarrow> e = AttributeError \<or> e = TypeError"
proof -
  assume a: "llm_rank_candidates L cs n rd = Inl e"
  then have p: "parse_and_rank L cs n (content rd) = Inl e" and nc: "\<not> caught e"
    by (auto simp: llm_rank_candidates_def Let_def split: sum.splits if_splits)
  from p have "body_error e \<or> caught e"
    by (auto simp: parse_and_rank_def caught_def dest: rank_loop_err split: option.splits json.splits)
  with nc show ?thesis by (auto simp: body_error_def caught_def)
qed

lemmas store_defs = batch_match_all_incentives_def ceiling_set_def checked_row_def execute_upsert_def
   decimal_5_4_def py_truthy_def empty_table_def

subsection \<open>Upserts\<close>

lemma upserts_Nil: "upserts [] al = al" by (simp add: upserts_def)

lemma upserts_Cons: "upserts ((k, v) # kvs) al = upserts kvs (AList.update k v al)"
  by (simp add: upserts_def)

lemma upserts_map_of: "map_of (upserts kvs al) = map_of al ++ map_of (rev kvs)"
proof (induction kvs arbitrary: al)
  case Nil show ?case by (simp add: upserts_Nil)
next
  case (Cons kv kvs)
  obtain k v where kv: "kv = (k, v)" by (cases kv)
  show ?case unfolding kv upserts_Cons Cons.IH
    by (simp add: update_conv' map_add_def fun_eq_iff split: option.splits)
qed

lemma upserts_dom: "fst ` set (upserts kvs al) = fst ` set al \<union> fst ` set kvs"
proof (induction kvs arbitrary: al)
  case Nil show ?case by (simp add: upserts_Nil)
next
  case (Cons kv kvs)
  obtain k v where kv: "kv = (k, v)" by (cases kv)
  show ?case unfolding kv upserts_Cons Cons.IH by (auto simp: dom_update)
qed

lemma upserts_keys_known:
  "fst ` set kvs \<subseteq> fst ` set al \<Longrightarrow> map fst (upserts kvs al) = map fst al"
proof (induction kvs arbitrary: al)
  case Nil show ?case by (simp add: upserts_Nil)
next
  case (Cons kv kvs)
  obtain k v where kv: "kv = (k, v)" by (cases kv)
  from Cons.prems kv have k: "k \<in> fst ` set al" and r: "fst ` set kvs \<subseteq> fst ` set al" by auto
  have uk: "map fst (AList.update k v al) = map fst al" using k by (simp add: update_keys)
  then have "fst ` set (AList.update k v al) = fst ` set al"
    by (metis list.set_map)
  with r have "fst ` set kvs \<subseteq> fst ` set (AList.update k v al)" by simp
  from Cons.IH[OF this] uk show ?case unfolding kv upserts_Cons by simp
qed

lemma upserts_distinct: "distinct (map fst al) \<Longrightarrow> distinct (map fst (upserts kvs al))"
proof (induction kvs arbitrary: al)
  case Nil then show ?case by (simp add: upserts_Nil)
next
  case (Cons kv kvs)
  obtain k v where kv: "kv = (k, v)" by (cases kv)
  from Cons.IH[OF distinct_update[OF Cons.prems, of k v]] show ?case unfolding kv upserts_Cons .
qed

lemma alist_eqI:
  assumes d: "distinct (map fst xs)" and k: "map fst xs = map fst ys" and m: "map_of xs = map_of ys"
  shows "xs = ys"
proof (rule nth_equalityI)
  from k show len: "length xs = length ys" by (metis length_map)
  fix i assume i: "i < length xs"
  from k have f: "fst (xs ! i) = fst (ys ! i)" using i len by (metis nth_map)
  from d k have d': "distinct (map fst ys)" by simp
  have "map_of xs (fst (xs ! i)) = Some (snd (xs ! i))"
    using d i by (simp add: map_of_eq_Some_iff)
  moreover have "map_of ys (fst (ys ! i)) = Some (snd (ys ! i))"
    using d' i len by (simp add: map_of_eq_Some_iff)
  ultimately have "snd (xs ! i) = snd (ys ! i)" using m f by simp
  with f show "xs ! i = ys ! i" by (simp add: prod_eq_iff)
qed

lemma upserts_idem:
  assumes d: "distinct (map fst al)"
  shows "upserts kvs (upserts kvs al) = upserts kvs al"
proof (rule alist_eqI)
  show "distinct (map fst (upserts kvs (upserts kvs al)))"
    by (intro upserts_distinct d)
  have "fst ` set kvs \<subseteq> fst ` set (upserts kvs al)" by (simp add: upserts_dom)
  then show "map fst (upserts kvs (upserts kvs al)) = map fst (upserts kvs al)"
    by (rule upserts_keys_known)
  show "map_of (upserts kvs (upserts kvs al)) = map_of (upserts kvs al)"
    by (simp add: upserts_map_of map_add_def fun_eq_iff split: option.splits)
qed

lemma stored_update:
  "map (\<lambda>(k, r). (k, f r)) (AList.update k v al) = AList.update k (f v) (map (\<lambda>(k, r). (k, f r)) al)"
  by (induction al) auto

lemma checked_row_now:
  "checked_row W now iid m =
     (case row_error W iid m of
        Some e \<Rightarrow> Inl e
      | None \<Rightarrow> Inr \<lparr> row_score = decimal_5_4 (score m), rank_position = rank m,
                     row_reasoning = (if py_truthy (reasoning m) then Some (reasoning m) else None),
                     created_at = now \<rparr>)"
  by (simp add: checked_row_def row_error_def Let_def)

lemma save_stored:
  "stored (snd (save_matches_to_database W t iid ms)) = upserts (written W iid ms) (stored t)"
proof (induction ms arbitrary: t)
  case Nil show ?case by (simp add: written_def upserts_Nil)
next
  case (Cons m ms)
  show ?case
  proof (cases "row_error W iid m")
    case (Some e)
    then show ?thesis
      by (simp add: execute_upsert_def checked_row_now written_def upserts_Nil stored_def)
  next
    case None
    then show ?thesis
      by (simp add: execute_upsert_def checked_row_now written_def upserts_Cons Cons.IH)
         (simp add: stored_def stored_update)
  qed
qed

lemma save_result:
  "fst (save_matches_to_database W t iid ms) =
     (case dropWhile (\<lambda>m. row_error W iid m = None) ms of [] \<Rightarrow> None | m # _ \<Rightarrow> row_error W iid m)"
proof (induction ms arbitrary: t)
  case Nil show ?case by simp
next
  case (Cons m ms)
  show ?case
  proof (cases "row_error W iid m")
    case (Some e)
    then show ?thesis by (simp add: execute_upsert_def checked_row_now)
  next
    case None
    then show ?thesis by (simp add: execute_upsert_def checked_row_now Cons.IH)
  qed
qed

lemma stored_keys: "map fst (stored t) = map fst (matches t)"
  by (simp add: stored_def comp_def case_prod_beta)


lemma count_key_one:
  "distinct (map fst al) \<Longrightarrow> k \<in> fst ` set al \<Longrightarrow> length (filter (\<lambda>kr. fst kr = k) al) = 1"
proof (induction al)
  case Nil then show ?case by simp
next
  case (Cons a al)
  show ?case
  proof (cases "fst a = k")
    case True
    with Cons.prems have "k \<notin> fst ` set al" by auto
    then have "filter (\<lambda>kr. fst kr = k) al = []" by (auto simp: filter_empty_conv)
    with True show ?thesis by simp
  next
    case False
    with Cons show ?thesis by auto
  qed
qed










lemma save_distinct:
  assumes d: "distinct (map fst (matches t))"
  shows "distinct (map fst (matches (snd (save_matches_to_database W t iid ms))))"
proof -
  from d have "distinct (map fst (stored t))" by (simp add: stored_keys)
  then have "distinct (map fst (upserts (written W iid ms) (stored t)))" by (rule upserts_distinct)
  then show ?thesis by (simp add: save_stored[symmetric] stored_keys)
qed


subsection \<open>The broadened scan\<close>

lemma expand_loop_take:
  "int (length acc) \<le> t \<Longrightarrow>
   expand_loop (extract_general_keywords inc) t acc cs
     = acc @ take (nat (t - int (length acc))) (filter (broad_match inc) cs)"
proof (induction cs arbitrary: acc)
  case Nil then show ?case by simp
next
  case (Cons c cs)
  show ?case
  proof (cases "t \<le> int (length acc)")
    case True
    with Cons.prems have "t - int (length acc) = 0" by simp
    with True show ?thesis by simp
  next
    case False
    then have lt: "int (length acc) < t" by simp
    show ?thesis
    proof (cases "broad_match inc c")
      case True
      from lt have le: "int (length (acc @ [c])) \<le> t" by simp
      have n: "nat (t - int (length acc)) = Suc (nat (t - int (length (acc @ [c]))))"
        using lt by simp
      from True False Cons.IH[OF le] show ?thesis
        unfolding n by (simp add: broad_match_def)
    next
      case False
      with \<open>\<not> t \<le> int (length acc)\<close> Cons.IH[OF Cons.prems] show ?thesis
        by (simp add: broad_match_def)
    qed
  qed
qed

lemmas filter_defs = filter_companies_for_incentive_def surviving_def expand_candidate_pool_def
  extract_general_keywords_def filter_by_keywords_def company_text_def incentive_text_def
  or_empty_def py_lower_def lower_char_def incentive_terms_def sector_agnostic_terms_def
  ex_company_def ex_criteria_def ex_apoio_def ex_sample_def Let_def

lemmas save_defs = execute_upsert_def checked_row_def decimal_5_4_def py_truthy_def
  empty_table_def ex_result_def

section \<open>The claims\<close>

subsection \<open>C1: ranks and pairs of a matching\<close>

text \<open>
  Claim C1 says that the ranks of a matching are always the contiguous \<open>1..len\<close> and
  that no company occurs twice, also for responses with out-of-range or repeated
  indices. It fails: with one candidate (company 7) and the response
  \<open>[{"company_number": 9}, {"company_number": 1}, {"company_number": 1}]\<close> the first
  entry is skipped by the bounds guard and the other two keep their places in the array,
  so the ranks are 2 and 3 and company 7 is returned twice.
\<close>

theorem matchOne_gaps_and_duplicates:
  \<open>map_sum id ranks_contiguous
     (match_companies_for_incentive
        (ex_world [1] [ex_candidate 7 0.9]
           ''[{"company_number": 9}, {"company_number": 1}, {"company_number": 1}]'')
        ex_lib 1 20 0.30) = Inr False \<and>
   map_sum id companies_unique
     (match_companies_for_incentive
        (ex_world [1] [ex_candidate 7 0.9]
           ''[{"company_number": 9}, {"company_number": 1}, {"company_number": 1}]'')
        ex_lib 1 20 0.30) = Inr False \<and>
   map_sum id (map rank)
     (match_companies_for_incentive
        (ex_world [1] [ex_candidate 7 0.9]
           ''[{"company_number": 9}, {"company_number": 1}, {"company_number": 1}]'')
        ex_lib 1 20 0.30) = Inr [2, 3] \<and>
   map_sum id (map company_id)
     (match_companies_for_incentive
        (ex_world [1] [ex_candidate 7 0.9]
           ''[{"company_number": 9}, {"company_number": 1}, {"company_number": 1}]'')
        ex_lib 1 20 0.30) = Inr [7, 7]\<close>
  by (simp add: ex_defs model_defs ranks_contiguous_def companies_unique_def)

text \<open>
  Claim C1, amended. For an incentive with at least one embedded candidate, a matching
  that returns has at most 5 results, every rank lies in 1..5, and the ranks are strictly
  increasing, hence unique: a rank is the 1-based place of its entry in the response
  array. The ranks are the contiguous \<open>1..len\<close> when the response is not an array (the
  fallback) or no entry among the first five is skipped, that is, there are as many
  results as entries considered. The company ids are pairwise distinct, and with them the
  (incentive, company) pairs, when the candidates have distinct ids and the entries among
  the first five that name a candidate in range name different ones.
\<close>

theorem matchOne_rank_invariant:
  assumes res: "match_companies_for_incentive W L iid k mc = Inr ms"
      and inc: "get_incentive W iid = Some inc"
      and ne: "find_similar_companies W iid k \<noteq> []"
      and rd: "complete W inc (find_similar_companies W iid k) = Some rd"
  shows "length ms \<le> 5 \<and>
         (\<forall>m\<in>set ms. 1 \<le> rank m \<and> rank m \<le> 5) \<and>
         sorted_wrt (<) (map rank ms) \<and>
         ((\<forall>es. json_loads L (py_strip (content rd)) = Some (JArr es) \<longrightarrow>
               length ms = length (py_take 5 es))
            \<longrightarrow> ranks_contiguous ms) \<and>
         (distinct (map id_c (find_similar_companies W iid k)) \<and>
          (\<forall>es. json_loads L (py_strip (content rd)) = Some (JArr es) \<longrightarrow>
               distinct (map snd (selected (length (find_similar_companies W iid k)) 1
                                    (py_take 5 es))))
            \<longrightarrow> companies_unique ms)"
proof -
  from res inc ne rd obtain c where
    r: "llm_rank_candidates L (find_similar_companies W iid k) 5 rd = Inr (ms, c)"
    by (auto simp: match_companies_for_incentive_def Let_def split: sum.splits prod.splits)
  have n: "(0::int) \<le> 5" by simp
  from llm_rank_shape[OF r n] show ?thesis
    by (simp add: ranks_contiguous_def companies_unique_def)
qed

theorem matchOne_rank_invariant_witness:
  \<open>\<exists>ms. match_companies_for_incentive
          (ex_world [1] ex_pair ''[{"company_number": 2}, {"company_number": 1}]'')
          ex_lib 1 20 0.30 = Inr ms \<and>
        length ms \<le> 5 \<and> ranks_contiguous ms \<and> companies_unique ms\<close>
proof -
  let ?text = \<open>''[{"company_number": 2}, {"company_number": 1}]''\<close>
  let ?W = "ex_world [1] ex_pair ?text"
  let ?rd = "complete_result ?text 1000 100 0.05"
  let ?es = "[JObj [(''company_number'', JInt 2)], JObj [(''company_number'', JInt 1)]]"
  obtain ms where res: "match_companies_for_incentive ?W ex_lib 1 20 0.30 = Inr ms"
    and len: "length ms = 2"
    by (simp add: ex_defs ex_pair_def model_defs)
  have inc: "get_incentive ?W 1 = Some (ex_incentive 1)" by (simp add: ex_world_def)
  have cs: "find_similar_companies ?W 1 20 = ex_pair"
    by (simp add: ex_world_def find_similar_companies_def ex_pair_def)
  have ne: "find_similar_companies ?W 1 20 \<noteq> []" unfolding cs by (simp add: ex_pair_def)
  have rd: "complete ?W (ex_incentive 1) (find_similar_companies ?W 1 20) = Some ?rd"
    by (simp add: ex_world_def)
  have js: "json_loads ex_lib (py_strip (content ?rd)) = Some (JArr ?es)"
    by (simp add: ex_lib_def complete_result_def py_strip_def py_isspace_def)
  have h1: "\<forall>es. json_loads ex_lib (py_strip (content ?rd)) = Some (JArr es) \<longrightarrow>
               length ms = length (py_take 5 es)"
    unfolding js by (simp add: len py_take_def)
  have h2: "distinct (map id_c (find_similar_companies ?W 1 20)) \<and>
          (\<forall>es. json_loads ex_lib (py_strip (content ?rd)) = Some (JArr es) \<longrightarrow>
               distinct (map snd (selected (length (find_similar_companies ?W 1 20)) 1
                                    (py_take 5 es))))"
    unfolding js cs
    by (simp add: ex_pair_def ex_candidate_def py_take_def selected_Cons selected_Nil
                  entry_index_def dict_get_def)
  from matchOne_rank_invariant[OF res inc ne rd] h1 h2 res show ?thesis by blast
qed

subsection \<open>C2: the fallback\<close>




subsection \<open>C3: the aggregate cost ceiling\<close>

text \<open>
  Claim C3 says that the batch tracks the running cost and stops at the ceiling, and that
  a ceiling of 0 processes no incentive. The loop never assigns its running cost and
  takes a ceiling of 0 for no ceiling: with two incentives, a scoring call that reports a
  cost of 0.05 and the ceiling 0, both incentives are matched and saved, two successes are
  reported and the reported total cost is 0.
\<close>

theorem ceiling_zero_processes_all:
  \<open>successful_matches (fst (batch_match_all_incentives
      (ex_world [1, 2] ex_pair ''[{"company_number": 2}, {"company_number": 1}]'')
      ex_lib empty_table (Some 0) True)) = 2 \<and>
    total_cost (fst (batch_match_all_incentives
      (ex_world [1, 2] ex_pair ''[{"company_number": 2}, {"company_number": 1}]'')
      ex_lib empty_table (Some 0) True)) = 0 \<and>
    map fst (matches (snd (batch_match_all_incentives
      (ex_world [1, 2] ex_pair ''[{"company_number": 2}, {"company_number": 1}]'')
      ex_lib empty_table (Some 0) True))) = [(1, 8), (1, 7), (2, 8), (2, 7)]\<close>
  by (simp add: ex_defs ex_pair_def model_defs store_defs)

subsection \<open>C4: the cost returned by a ranking\<close>

text \<open>
  Claim C4 says that the ranking returns the cost that the scoring call reported. The
  clients report it under the key \<open>cost\<close> and the ranking reads \<open>total_cost\<close>, with
  0.0 as the default: for a call that reports 0.05 the ranking returns 0.
\<close>

theorem reported_cost_not_returned:
  "map_sum id snd (llm_rank_candidates ex_lib ex_pair 5 (complete_result ''[]'' 1000 100 0.05))
     = Inr 0"
  by (simp add: ex_defs ex_pair_def model_defs)

subsection \<open>C5: the under-shoot correction\<close>

text \<open>
  Claim C5 says that the under-shoot correction appends to the surviving set, so that
  every survivor is in the returned list. It fails: for the incentive titled \<open>Apoio\<close>,
  a target of 4 and five companies of which only the last mentions \<open>apoio\<close>, the keyword
  stage leaves that company alone, fewer than \<open>4 div 2\<close>; the correction then scans
  the full list from the start, collects the four companies that mention \<open>empresa\<close>,
  reaches the target before it comes to the survivor, and returns the four.
\<close>

theorem survivor_dropped_by_expansion:
  "surviving ex_criteria
      [ex_company 1 ''empresa a'', ex_company 2 ''empresa b'', ex_company 3 ''empresa c'',
       ex_company 4 ''empresa d'', ex_company 5 ''apoio social'']
      ex_apoio 4 = [ex_company 5 ''apoio social''] \<and>
   filter_companies_for_incentive ex_sample ex_criteria
      [ex_company 1 ''empresa a'', ex_company 2 ''empresa b'', ex_company 3 ''empresa c'',
       ex_company 4 ''empresa d'', ex_company 5 ''apoio social'']
      ex_apoio 4
     = [ex_company 1 ''empresa a'', ex_company 2 ''empresa b'', ex_company 3 ''empresa c'',
        ex_company 4 ''empresa d''] \<and>
   ex_company 5 ''apoio social'' \<notin> set (filter_companies_for_incentive ex_sample ex_criteria
      [ex_company 1 ''empresa a'', ex_company 2 ''empresa b'', ex_company 3 ''empresa c'',
       ex_company 4 ''empresa d'', ex_company 5 ''apoio social'']
      ex_apoio 4)"
  by (simp add: filter_defs)

text \<open>
  Claim C5, amended. Whenever the set surviving the earlier stages is below half the
  target count (integer division), the correction discards it and builds the list anew
  from the original full company set: the first \<open>target_count\<close> companies, in their
  original order, whose text contains one of the broadened, domain-agnostic keywords;
  only if that list is itself below half the target is it followed by companies not in
  it, all of them when they are no more than the number still needed, else a random sample
  of that size. A survivor of the earlier stages is in the result only when it is chosen
  in one of these two ways.
\<close>

theorem undershoot_rebuilds_pool:
  assumes short: "int (length (surviving crit companies inc target_count)) < target_count div 2"
  shows "filter_companies_for_incentive rs crit companies inc target_count =
           (let chosen = take (nat target_count) (filter (broad_match inc) companies);
                available = filter (\<lambda>c. c \<notin> set chosen) companies;
                needed = target_count - int (length chosen)
            in if target_count div 2 \<le> int (length chosen) then chosen
               else if needed < int (length available) then chosen @ rs available (nat needed)
               else chosen @ available)"
proof -
  from short have "0 \<le> target_count" by (smt (verit) of_nat_0_le_iff pos_imp_zdiv_neg_iff)
  then have "int (length ([]::CompanyModel list)) \<le> target_count" by simp
  from expand_loop_take[OF this, of inc companies]
  have e: "expand_loop (extract_general_keywords inc) target_count [] companies
            = take (nat target_count) (filter (broad_match inc) companies)" by simp
  define chosen where "chosen = take (nat target_count) (filter (broad_match inc) companies)"
  have l: "filter_companies_for_incentive rs crit companies inc target_count
             = expand_candidate_pool rs companies inc target_count"
    using short by (simp add: filter_companies_for_incentive_def Let_def)
  have r: "expand_candidate_pool rs companies inc target_count =
             (if int (length chosen) < target_count div 2
              then (if target_count - int (length chosen)
                         < int (length (filter (\<lambda>c. c \<notin> set chosen) companies))
                    then chosen @ rs (filter (\<lambda>c. c \<notin> set chosen) companies)
                                     (nat (target_count - int (length chosen)))
                    else chosen @ filter (\<lambda>c. c \<notin> set chosen) companies)
              else chosen)"
    unfolding expand_candidate_pool_def Let_def e chosen_def ..
  show ?thesis
    unfolding l r Let_def chosen_def[symmetric]
    by (cases "int (length chosen) < target_count div 2") (simp_all only: not_less if_True if_False, simp_all)
qed

theorem undershoot_rebuilds_pool_witness:
  "int (length (surviving ex_criteria
      [ex_company 1 ''apoio social'', ex_company 2 ''loja'', ex_company 3 ''cafe'',
       ex_company 4 ''bar'', ex_company 5 ''taxi''] ex_apoio 4)) < 4 div 2 \<and>
   filter_companies_for_incentive ex_sample ex_criteria
      [ex_company 1 ''apoio social'', ex_company 2 ''loja'', ex_company 3 ''cafe'',
       ex_company 4 ''bar'', ex_company 5 ''taxi''] ex_apoio 4
     = [ex_company 1 ''apoio social'', ex_company 2 ''loja'', ex_company 3 ''cafe'',
        ex_company 4 ''bar'']"
proof -
  let ?cs = "[ex_company 1 ''apoio social'', ex_company 2 ''loja'', ex_company 3 ''cafe'',
       ex_company 4 ''bar'', ex_company 5 ''taxi'']"
  have s: "surviving ex_criteria ?cs ex_apoio 4 = [ex_company 1 ''apoio social'']"
    by (simp add: filter_defs)
  have short: "int (length (surviving ex_criteria ?cs ex_apoio 4)) < 4 div 2"
    unfolding s by simp
  have f: "filter (broad_match ex_apoio) ?cs = [ex_company 1 ''apoio social'']"
    by (simp add: broad_match_def filter_defs)
  from undershoot_rebuilds_pool[OF short, of ex_sample] short show ?thesis
    unfolding f by (simp add: Let_def ex_sample_def ex_company_def)
qed

subsection \<open>C6: all-or-nothing persistence\<close>

text \<open>
  Claim C6 says that a call either writes all its rows or none. The loop runs without a
  transaction: when company 8 has no row in the companies table, saving results for the
  companies 7 and 8 writes the row of company 7, fails on the foreign key of the second
  row and leaves the first one stored.
\<close>

theorem partial_write_on_failure:
  "fst (save_matches_to_database (ex_world [1] [ex_candidate 7 0.9] ''[]'') empty_table 1
          [ex_result 7 1, ex_result 8 2]) = Some ForeignKeyViolation \<and>
   stored (snd (save_matches_to_database (ex_world [1] [ex_candidate 7 0.9] ''[]'') empty_table 1
          [ex_result 7 1, ex_result 8 2]))
     = [((1, 7), (4, 1, Some (JObj [(''recommendation'', JStr ''ok'')])))]"
  by (simp add: save_defs stored_def ex_world_def ex_candidate_def ex_incentive_def)

subsection \<open>C7: rows per incentive\<close>




subsection \<open>C8: idempotent persistence\<close>

text \<open>
  Claim C8. On a table whose (incentive, company) pairs are unique, saving the same
  result list for the same incentive a second time leaves score, rank position and
  reasoning of every row as the first call left them (only timestamps change), ends as
  the first call ended, and, when the calls succeed, the table holds exactly one row for
  each (incentive, company) pair of the list.
\<close>

theorem persist_idempotent:
  assumes d: "distinct (map fst (matches t))"
  shows "stored (snd (save_matches_to_database W (snd (save_matches_to_database W t iid ms)) iid ms))
           = stored (snd (save_matches_to_database W t iid ms)) \<and>
         fst (save_matches_to_database W (snd (save_matches_to_database W t iid ms)) iid ms)
           = fst (save_matches_to_database W t iid ms) \<and>
         (fst (save_matches_to_database W t iid ms) = None \<longrightarrow>
            (\<forall>m\<in>set ms.
               length (filter (\<lambda>kr. fst kr = (iid, company_id m))
                 (matches (snd (save_matches_to_database W
                    (snd (save_matches_to_database W t iid ms)) iid ms)))) = 1))"
proof (intro conjI impI ballI)
  from d have ds: "distinct (map fst (stored t))" by (simp add: stored_keys)
  show "stored (snd (save_matches_to_database W (snd (save_matches_to_database W t iid ms)) iid ms))
           = stored (snd (save_matches_to_database W t iid ms))"
    by (simp add: save_stored upserts_idem[OF ds])
  show "fst (save_matches_to_database W (snd (save_matches_to_database W t iid ms)) iid ms)
           = fst (save_matches_to_database W t iid ms)"
    by (simp add: save_result)
  fix m assume ok: "fst (save_matches_to_database W t iid ms) = None" and m: "m \<in> set ms"
  let ?t2 = "snd (save_matches_to_database W (snd (save_matches_to_database W t iid ms)) iid ms)"
  from ok have all: "\<forall>m\<in>set ms. row_error W iid m = None"
  proof -
    have "dropWhile (\<lambda>m. row_error W iid m = None) ms = []"
    proof (cases "dropWhile (\<lambda>m. row_error W iid m = None) ms")
      case Nil then show ?thesis .
    next
      case (Cons x xs)
      with ok have "row_error W iid x = None" by (simp add: save_result)
      moreover from Cons have "\<not> row_error W iid x = None"
        using hd_dropWhile[of "\<lambda>m. row_error W iid m = None" ms] by auto
      ultimately show ?thesis by simp
    qed
    then show ?thesis by (simp add: dropWhile_eq_Nil_conv)
  qed
  then have tw: "takeWhile (\<lambda>m. row_error W iid m = None) ms = ms"
    by (simp add: takeWhile_eq_all_conv)
  have "(iid, company_id m) \<in> fst ` set (written W iid ms)"
    using m by (force simp: written_def tw)
  then have "(iid, company_id m) \<in> fst ` set (stored ?t2)"
    by (simp add: save_stored upserts_dom)
  then have k: "(iid, company_id m) \<in> fst ` set (matches ?t2)"
    by (metis stored_keys list.set_map)
  have "distinct (map fst (matches ?t2))"
    by (intro save_distinct d)
  from count_key_one[OF this k]
  show "length (filter (\<lambda>kr. fst kr = (iid, company_id m)) (matches ?t2)) = 1" .
qed

theorem persist_idempotent_witness:
  "distinct (map fst (matches empty_table)) \<and>
   stored (snd (save_matches_to_database (ex_world [1] ex_pair ''[]'')
            (snd (save_matches_to_database (ex_world [1] ex_pair ''[]'') empty_table 1
                    [ex_result 7 1, ex_result 8 2])) 1 [ex_result 7 1, ex_result 8 2]))
     = [((1, 7), (4, 1, Some (JObj [(''recommendation'', JStr ''ok'')]))),
        ((1, 8), (4, 2, Some (JObj [(''recommendation'', JStr ''ok'')])))]"
proof -
  have d: "distinct (map fst (matches empty_table))" by (simp add: empty_table_def)
  have s1: "stored (snd (save_matches_to_database (ex_world [1] ex_pair ''[]'') empty_table 1
                    [ex_result 7 1, ex_result 8 2]))
     = [((1, 7), (4, 1, Some (JObj [(''recommendation'', JStr ''ok'')]))),
        ((1, 8), (4, 2, Some (JObj [(''recommendation'', JStr ''ok'')])))]"
    by (simp add: save_defs stored_def ex_world_def ex_pair_def ex_candidate_def ex_incentive_def)
  from persist_idempotent[OF d, of "ex_world [1] ex_pair ''[]''" 1 "[ex_result 7 1, ex_result 8 2]"]
  show ?thesis using d s1 by simp
qed

subsection \<open>C9: not found and not embedded\<close>

text \<open>
  Claim C9. A matching fails with the not-found error exactly when the incentive does not
  exist; for an incentive without a stored embedding the nearest-company search returns
  the empty list, and the matching of an existing incentive without embedding returns the
  empty result list.
\<close>

theorem matchOne_not_found_iff:
  "((\<exists>j. match_companies_for_incentive W L iid k mc = Inl (IncentiveNotFound j))
      \<longleftrightarrow> get_incentive W iid = None) \<and>
   (embedding_of W iid = None \<longrightarrow> find_similar_companies W iid k = []) \<and>
   (get_incentive W iid \<noteq> None \<and> embedding_of W iid = None
      \<longrightarrow> match_companies_for_incentive W L iid k mc = Inr [])"
proof (intro conjI)
  show "(\<exists>j. match_companies_for_incentive W L iid k mc = Inl (IncentiveNotFound j))
      \<longleftrightarrow> get_incentive W iid = None"
    by (auto simp: match_companies_for_incentive_def Let_def dest: llm_rank_err
             split: option.splits sum.splits prod.splits if_splits)
  show "embedding_of W iid = None \<longrightarrow> find_similar_companies W iid k = []"
    by (simp add: find_similar_companies_def)
  show "get_incentive W iid \<noteq> None \<and> embedding_of W iid = None
      \<longrightarrow> match_companies_for_incentive W L iid k mc = Inr []"
    by (auto simp: match_companies_for_incentive_def find_similar_companies_def)
qed

theorem matchOne_not_found_iff_witness:
  "match_companies_for_incentive (ex_world [1] ex_pair ''[]'') ex_lib 2 20 0.30
     = Inl (IncentiveNotFound 2) \<and>
   get_incentive ((ex_world [1] ex_pair ''[]'')\<lparr>embedding_of := (\<lambda>i. None)\<rparr>) 1 \<noteq> None \<and>
   match_companies_for_incentive ((ex_world [1] ex_pair ''[]'')\<lparr>embedding_of := (\<lambda>i. None)\<rparr>)
      ex_lib 1 20 0.30 = Inr []"
proof -
  let ?W = "ex_world [1] ex_pair ''[]''"
  let ?V = "?W\<lparr>embedding_of := (\<lambda>i. None)\<rparr>"
  have a: "get_incentive ?W 2 = None" by (simp add: ex_world_def)
  from matchOne_not_found_iff[of ?W ex_lib 2 20 "0.30"] a
  obtain j where j: "match_companies_for_incentive ?W ex_lib 2 20 0.30 = Inl (IncentiveNotFound j)"
    by blast
  then have "j = 2" by (simp add: match_companies_for_incentive_def a)
  with j have r1: "match_companies_for_incentive ?W ex_lib 2 20 0.30 = Inl (IncentiveNotFound 2)"
    by simp
  have b: "get_incentive ?V 1 \<noteq> None \<and> embedding_of ?V 1 = None" by (simp add: ex_world_def)
  from matchOne_not_found_iff[of ?V ex_lib 1 20 "0.30"] b
  have "match_companies_for_incentive ?V ex_lib 1 20 0.30 = Inr []" by blast
  with r1 b show ?thesis by blast
qed

subsection \<open>C10: the composite score\<close>



end
